theory Spec2Isabelle
  imports Main "HOL-Library.Sublist" "HOL-Library.Char_ord" "HOL-Library.List_Lexorder"
begin

section \<open>Text: characters, lower-casing, whitespace, substring test\<close>

text \<open>
  A Python \<open>str\<close> is a sequence of code points and \<open>len\<close> counts code points. The model
  reads a \<^typ>\<open>char\<close> as one code point below 256 (ASCII and Latin-1, which holds every
  letter of the configured Spanish terms and city names), so \<^const>\<open>length\<close> is Python's
  \<open>len\<close> on such texts. An argument that may be \<open>None\<close> is a \<^typ>\<open>string option\<close>.
\<close>

abbreviation (input) a_acento :: char where "a_acento \<equiv> CHR 0xE1"
abbreviation (input) e_acento :: char where "e_acento \<equiv> CHR 0xE9"
abbreviation (input) i_acento :: char where "i_acento \<equiv> CHR 0xED"
abbreviation (input) o_acento :: char where "o_acento \<equiv> CHR 0xF3"
abbreviation (input) u_acento :: char where "u_acento \<equiv> CHR 0xFA"
abbreviation (input) enie :: char where "enie \<equiv> CHR 0xF1"

text \<open>
  \<open>str.lower()\<close> on code points below 256: A to Z, and the Latin-1 capitals 0xC0 to 0xDE
  without the multiplication sign 0xD7, move up by 32; every other code point stays.
\<close>

definition lower_char :: "char \<Rightarrow> char" where
  "lower_char c =
     (let n = (of_char c :: nat)
      in if (65 \<le> n \<and> n \<le> 90) \<or> (192 \<le> n \<and> n \<le> 214) \<or> (216 \<le> n \<and> n \<le> 222)
         then char_of (n + 32) else c)"

definition lower :: "string \<Rightarrow> string" where
  "lower s = map lower_char s"

text \<open>
  The whitespace of \<open>\s\<close> in a \<open>str\<close> pattern and of \<open>str.strip()\<close>, below 256: tab, line
  feed, vertical tab, form feed, carriage return, the separators 0x1C to 0x1F, the space,
  NEL (0x85) and the no-break space (0xA0).
\<close>

definition es_espacio :: "char \<Rightarrow> bool" where
  "es_espacio c =
     (let n = (of_char c :: nat)
      in (9 \<le> n \<and> n \<le> 13) \<or> (28 \<le> n \<and> n \<le> 32) \<or> n = 133 \<or> n = 160)"

text \<open>Python's \<open>s in t\<close> on strings: \<open>s\<close> occurs in \<open>t\<close> as a contiguous block.\<close>

fun py_in :: "string \<Rightarrow> string \<Rightarrow> bool" where
  "py_in s [] = (s = [])"
| "py_in s (c # cs) = (prefix s (c # cs) \<or> py_in s cs)"

section \<open>config.py\<close>

definition TERMINOS_JUVENTUD :: "string list" where
  "TERMINOS_JUVENTUD =
     [''juventud'',
      ''j'' @ [o_acento] @ ''venes'',
      ''jovenes'',
      ''adolescentes'',
      ''adolescencia'',
      ''menor de edad'',
      ''menores de edad'',
      ''pandillas'',
      ''idipron'',
      ''plataformas juveniles'',
      ''primera infancia'',
      ''ni'' @ [enie] @ ''os'',
      ''ni'' @ [enie] @ ''as'',
      ''infancia'',
      ''juvenil'',
      ''juveniles'',
      ''estudiantes'',
      ''colegios'',
      ''escolar'']"

text \<open>
  The dictionary \<open>CIUDADES_COLOMBIA\<close> is iterated with \<open>.items()\<close>, in insertion order, and
  its keys are distinct: an association list in the order of the declaration.
\<close>

definition CIUDADES_COLOMBIA :: "(string \<times> string) list" where
  "CIUDADES_COLOMBIA =
     [(''bogot'' @ [a_acento], ''Bogot'' @ [a_acento]),
      (''bogota'', ''Bogot'' @ [a_acento]),
      (''medell'' @ [i_acento] @ ''n'', ''Medell'' @ [i_acento] @ ''n''),
      (''medellin'', ''Medell'' @ [i_acento] @ ''n''),
      (''cali'', ''Cali''),
      (''barranquilla'', ''Barranquilla''),
      (''cartagena'', ''Cartagena''),
      (''bucaramanga'', ''Bucaramanga''),
      (''pereira'', ''Pereira''),
      (''manizales'', ''Manizales''),
      (''santa marta'', ''Santa Marta''),
      (''ibagu'' @ [e_acento], ''Ibagu'' @ [e_acento]),
      (''ibague'', ''Ibagu'' @ [e_acento]),
      (''c'' @ [u_acento] @ ''cuta'', ''C'' @ [u_acento] @ ''cuta''),
      (''cucuta'', ''C'' @ [u_acento] @ ''cuta''),
      (''villavicencio'', ''Villavicencio''),
      (''pasto'', ''Pasto''),
      (''neiva'', ''Neiva''),
      (''armenia'', ''Armenia''),
      (''monter'' @ [i_acento] @ ''a'', ''Monter'' @ [i_acento] @ ''a''),
      (''monteria'', ''Monter'' @ [i_acento] @ ''a''),
      (''valledupar'', ''Valledupar''),
      (''popay'' @ [a_acento] @ ''n'', ''Popay'' @ [a_acento] @ ''n''),
      (''popayan'', ''Popay'' @ [a_acento] @ ''n''),
      (''tunja'', ''Tunja''),
      (''sincelejo'', ''Sincelejo''),
      (''florencia'', ''Florencia''),
      (''quibd'' @ [o_acento], ''Quibd'' @ [o_acento]),
      (''quibdo'', ''Quibd'' @ [o_acento]),
      (''riohacha'', ''Riohacha''),
      (''yopal'', ''Yopal''),
      (''leticia'', ''Leticia''),
      (''mocoa'', ''Mocoa''),
      (''arauca'', ''Arauca''),
      (''mit'' @ [u_acento], ''Mit'' @ [u_acento]),
      (''mitu'', ''Mit'' @ [u_acento]),
      (''puerto carre'' @ [enie] @ ''o'', ''Puerto Carre'' @ [enie] @ ''o''),
      (''san andr'' @ [e_acento] @ ''s'', ''San Andr'' @ [e_acento] @ ''s''),
      (''san andres'', ''San Andr'' @ [e_acento] @ ''s''),
      (''in'' @ [i_acento] @ ''rida'', ''In'' @ [i_acento] @ ''rida''),
      (''inirida'', ''In'' @ [i_acento] @ ''rida''),
      (''colombia'', ''Colombia'')]"

section \<open>scraper.py: the text functions\<close>

text \<open>\<open>contiene_terminos_juventud\<close>: \<open>not texto\<close> holds for \<open>None\<close> and for the empty string.\<close>

definition contiene_terminos_juventud :: "string option \<Rightarrow> bool" where
  "contiene_terminos_juventud texto =
     (case texto of
        None \<Rightarrow> False
      | Some t \<Rightarrow>
          if t = [] then False
          else (let texto_lower = lower t
                in list_ex (\<lambda>termino. py_in (lower termino) texto_lower) TERMINOS_JUVENTUD))"

text \<open>
  The loop of \<open>detectar_ciudad\<close> over the items of the table: the first key that occurs in
  the lower-cased text and whose name is not \<open>Colombia\<close> returns; the loop falls through
  otherwise.
\<close>

fun buscar_ciudad :: "(string \<times> string) list \<Rightarrow> string \<Rightarrow> string option" where
  "buscar_ciudad [] texto_lower = None"
| "buscar_ciudad ((ciudad_key, ciudad_nombre) # resto) texto_lower =
     (if py_in ciudad_key texto_lower
      then (if ciudad_nombre \<noteq> ''Colombia'' then Some ciudad_nombre
            else buscar_ciudad resto texto_lower)
      else buscar_ciudad resto texto_lower)"

text \<open>
  \<open>detectar_ciudad\<close>, with the table the loop runs over as an argument; the function of the
  source is the one on \<open>CIUDADES_COLOMBIA\<close>.
\<close>

definition detectar_ciudad_en :: "(string \<times> string) list \<Rightarrow> string option \<Rightarrow> string" where
  "detectar_ciudad_en tabla texto =
     (case texto of
        None \<Rightarrow> ''Sin identificar''
      | Some t \<Rightarrow>
          if t = [] then ''Sin identificar''
          else (let texto_lower = lower t
                in case buscar_ciudad tabla texto_lower of
                     Some ciudad_nombre \<Rightarrow> ciudad_nombre
                   | None \<Rightarrow>
                       if py_in ''colombia'' texto_lower then ''Colombia''
                       else ''Sin identificar''))"

definition detectar_ciudad :: "string option \<Rightarrow> string" where
  "detectar_ciudad texto = detectar_ciudad_en CIUDADES_COLOMBIA texto"

text \<open>
  \<open>re.sub(r'\s+', ' ', texto)\<close>: every maximal run of whitespace becomes one space.
\<close>

function re_sub_espacios :: "string \<Rightarrow> string" where
  "re_sub_espacios [] = []"
| "re_sub_espacios (c # cs) =
     (if es_espacio c then CHR '' '' # re_sub_espacios (dropWhile es_espacio cs)
      else c # re_sub_espacios cs)"
  by pat_completeness auto
termination
  by (relation "measure length") (auto simp: le_imp_less_Suc length_dropWhile_le)

definition strip :: "string \<Rightarrow> string" where
  "strip s = rev (dropWhile es_espacio (rev (dropWhile es_espacio s)))"

definition limpiar_texto :: "string option \<Rightarrow> string" where
  "limpiar_texto texto =
     (case texto of
        None \<Rightarrow> []
      | Some t \<Rightarrow> if t = [] then [] else strip (re_sub_espacios t))"

text \<open>
  \<open>texto[:max_chars]\<close>: a negative bound counts from the end, and the slice is empty when
  it reaches before the start.
\<close>

definition slice_hasta :: "string \<Rightarrow> int \<Rightarrow> string" where
  "slice_hasta s n =
     (if 0 \<le> n then take (nat n) s else take (nat (int (length s) + n)) s)"

text \<open>
  \<open>s.rsplit(' ', 1)[0]\<close>: what stands before the last space character of \<open>s\<close>, or \<open>s\<close>
  itself when it has no space.
\<close>

definition rsplit_primero :: "string \<Rightarrow> string" where
  "rsplit_primero s =
     (if CHR '' '' \<in> set s
      then rev (tl (dropWhile (\<lambda>c. c \<noteq> CHR '' '') (rev s)))
      else s)"

definition obtener_resumen :: "string option \<Rightarrow> int \<Rightarrow> string" where
  "obtener_resumen texto max_chars =
     (let t = limpiar_texto texto
      in if int (length t) \<le> max_chars then t
         else rsplit_primero (slice_hasta t max_chars) @ ''...'')"

section \<open>scraper.py: the store\<close>

text \<open>
  A cell of the table: a text, or the missing value (\<open>NaN\<close>) that \<open>read_excel\<close> gives
  for a cell with nothing in it. The scrapers make texts only; a missing value comes
  from the file. pandas takes two missing values for equal where it looks for
  duplicates, as the equality of this type does.
\<close>

datatype celda = NaN | Texto string

text \<open>
  A row of the table, with the columns \<open>fecha, titulo, fuente, ciudad, url, resumen\<close>. The
  \<open>DataFrame\<close> of the source is the list of its rows, in order.
\<close>

record noticia =
  fecha :: celda
  titulo :: celda
  fuente :: celda
  ciudad :: celda
  url :: celda
  resumen :: celda

text \<open>A row of a file written before the column \<open>ciudad\<close> existed.\<close>

record fila_sin_ciudad =
  fecha_fila :: celda
  titulo_fila :: celda
  fuente_fila :: celda
  url_fila :: celda
  resumen_fila :: celda

text \<open>
  What \<open>EXCEL_PATH\<close> holds when the run starts: no file, a file on which
  \<open>pd.read_excel\<close> raises, or a sheet that is read, with or without the column \<open>ciudad\<close>.
  The other five columns are taken to be there. A sheet is given by the rows
  \<open>read_excel\<close> returns for it.
\<close>

datatype hoja = Con_ciudad "noticia list" | Sin_ciudad "fila_sin_ciudad list"

datatype archivo_excel = No_existe | Ilegible | Legible hoja

definition agregar_ciudad :: "fila_sin_ciudad \<Rightarrow> noticia" where
  "agregar_ciudad f =
     \<lparr>fecha = fecha_fila f, titulo = titulo_fila f, fuente = fuente_fila f,
      ciudad = Texto ''Sin identificar'', url = url_fila f, resumen = resumen_fila f\<rparr>"

text \<open>
  \<open>cargar_excel_existente\<close>: the exception of \<open>read_excel\<close> is caught and the function
  falls through to the empty table, as it does when the file does not exist.
\<close>

definition cargar_excel_existente :: "archivo_excel \<Rightarrow> noticia list" where
  "cargar_excel_existente archivo =
     (case archivo of
        No_existe \<Rightarrow> []
      | Ilegible \<Rightarrow> []
      | Legible h \<Rightarrow>
          (case h of
             Con_ciudad df \<Rightarrow> df
           | Sin_ciudad filas \<Rightarrow> map agregar_ciudad filas))"

text \<open>
  \<open>guardar_excel\<close> hands the table, its six columns in order, to \<open>to_excel\<close>, which
  overwrites the file. What the file holds afterwards, and what \<open>read_excel\<close> returns for
  it in a later run, is the work of the library and not a function of this model:
  \<open>to_excel\<close> may refuse a text (a control character), and a cell written from the empty
  text, or from a text that starts with the equals sign, is read back as a missing value.
  \<open>escritura\<close> is the call that is made, with the rows it is given.
\<close>

datatype escritura = To_excel "noticia list"

definition guardar_excel :: "noticia list \<Rightarrow> escritura" where
  "guardar_excel df = To_excel df"

section \<open>scraper.py: the scrapers\<close>

text \<open>
  The transport and the HTML parser are outside the program. A request gives no response
  (\<open>hacer_request\<close> returns \<open>None\<close>), or a document whose parsing raises, or the list
  \<open>articulos\<close> of containers the scraper selects. Of a container the scraper reads three
  things: the link, already absolute (after \<open>urljoin\<close> where it does not start with
  \<open>http\<close>), the title text and the text of the first paragraph, both stripped. A
  container with no link is skipped by \<open>continue\<close>, one whose traversal raises by the
  \<open>except\<close> of the loop.
\<close>

datatype contenedor = Sin_enlace | Malformado | Articulo string string string

datatype respuesta = Sin_respuesta | Error_documento | Documento "contenedor list"

datatype sitio = Blu_Radio | Noticias_Caracol | Alerta_Bogota | Red_Mas | Pulzo | Infobae | Diario_ADN

text \<open>
  The body of the loop, the same in the seven scrapers but for the name of the source;
  \<open>scrape_alertabogota\<close> alone replaces an unidentified city by Bogota. \<open>hoy\<close> is
  \<open>datetime.now().strftime('%Y-%m-%d')\<close>, taken to be the same during one run.
\<close>

definition extraer :: "string \<Rightarrow> bool \<Rightarrow> string \<Rightarrow> contenedor \<Rightarrow> noticia option" where
  "extraer nombre_fuente defecto_bogota hoy art =
     (case art of
        Sin_enlace \<Rightarrow> None
      | Malformado \<Rightarrow> None
      | Articulo href titulo_crudo resumen_crudo \<Rightarrow>
          if contiene_terminos_juventud (Some titulo_crudo)
             \<or> contiene_terminos_juventud (Some resumen_crudo)
          then (let texto_completo = titulo_crudo @ '' '' @ resumen_crudo;
                    detectada = detectar_ciudad (Some texto_completo)
                in Some \<lparr>fecha = Texto hoy,
                         titulo = Texto (limpiar_texto (Some titulo_crudo)),
                         fuente = Texto nombre_fuente,
                         ciudad = Texto (if defecto_bogota \<and> detectada = ''Sin identificar''
                                         then ''Bogot'' @ [a_acento] else detectada),
                         url = Texto href,
                         resumen = Texto (if resumen_crudo \<noteq> []
                                          then obtener_resumen (Some resumen_crudo) 250
                                          else [])\<rparr>)
          else None)"

text \<open>
  A scraper returns its list, empty when the request failed; \<open>None\<close> stands for an
  exception that leaves the scraper (raised while the document is parsed).
\<close>

definition scrape_fuente :: "string \<Rightarrow> bool \<Rightarrow> string \<Rightarrow> respuesta \<Rightarrow> noticia list option" where
  "scrape_fuente nombre_fuente defecto_bogota hoy response =
     (case response of
        Sin_respuesta \<Rightarrow> Some []
      | Error_documento \<Rightarrow> None
      | Documento articulos \<Rightarrow>
          Some (List.map_filter (extraer nombre_fuente defecto_bogota hoy) (take 50 articulos)))"

definition scrape_bluradio :: "(sitio \<Rightarrow> respuesta) \<Rightarrow> string \<Rightarrow> noticia list option" where
  "scrape_bluradio web hoy = scrape_fuente ''Blu Radio'' False hoy (web Blu_Radio)"

definition scrape_caracol :: "(sitio \<Rightarrow> respuesta) \<Rightarrow> string \<Rightarrow> noticia list option" where
  "scrape_caracol web hoy = scrape_fuente ''Noticias Caracol'' False hoy (web Noticias_Caracol)"

definition scrape_pulzo :: "(sitio \<Rightarrow> respuesta) \<Rightarrow> string \<Rightarrow> noticia list option" where
  "scrape_pulzo web hoy = scrape_fuente ''Pulzo'' False hoy (web Pulzo)"

definition scrape_infobae :: "(sitio \<Rightarrow> respuesta) \<Rightarrow> string \<Rightarrow> noticia list option" where
  "scrape_infobae web hoy = scrape_fuente ''Infobae'' False hoy (web Infobae)"

definition scrape_alertabogota :: "(sitio \<Rightarrow> respuesta) \<Rightarrow> string \<Rightarrow> noticia list option" where
  "scrape_alertabogota web hoy =
     scrape_fuente (''Alerta Bogot'' @ [a_acento]) True hoy (web Alerta_Bogota)"

definition scrape_redmas :: "(sitio \<Rightarrow> respuesta) \<Rightarrow> string \<Rightarrow> noticia list option" where
  "scrape_redmas web hoy = scrape_fuente ''Red+'' False hoy (web Red_Mas)"

definition scrape_diarioadn :: "(sitio \<Rightarrow> respuesta) \<Rightarrow> string \<Rightarrow> noticia list option" where
  "scrape_diarioadn web hoy = scrape_fuente ''Diario ADN'' False hoy (web Diario_ADN)"

section \<open>scraper.py: the run\<close>

definition scrapers :: "(string \<times> ((sitio \<Rightarrow> respuesta) \<Rightarrow> string \<Rightarrow> noticia list option)) list" where
  "scrapers =
     [(''Blu Radio'', scrape_bluradio),
      (''Noticias Caracol'', scrape_caracol),
      (''Alerta Bogot'' @ [a_acento], scrape_alertabogota),
      (''Red+'', scrape_redmas),
      (''Pulzo'', scrape_pulzo),
      (''Infobae'', scrape_infobae),
      (''Diario ADN'', scrape_diarioadn)]"

text \<open>The two variables the loops of \<open>ejecutar_scraping\<close> update.\<close>

record estado =
  urls_existentes :: "celda set"
  nuevas_noticias :: "noticia list"

text \<open>
  The body of the inner loop, over the records one scraper returned. The url of such a
  record is a text, so the test never compares two missing values.
\<close>

definition registrar :: "estado \<Rightarrow> noticia \<Rightarrow> estado" where
  "registrar e n =
     (if url n \<notin> urls_existentes e
      then \<lparr>urls_existentes = insert (url n) (urls_existentes e),
            nuevas_noticias = nuevas_noticias e @ [n]\<rparr>
      else e)"

text \<open>
  The body of the outer loop: an exception of the scraper is caught before any of its
  records is looked at, and the state stays as it was.
\<close>

definition correr_scraper :: "estado \<Rightarrow> noticia list option \<Rightarrow> estado" where
  "correr_scraper e resultado =
     (case resultado of None \<Rightarrow> e | Some noticias \<Rightarrow> foldl registrar e noticias)"

text \<open>
  \<open>drop_duplicates(subset=['url'], keep='first')\<close>: a row goes when a row before it has
  its url.
\<close>

primrec duplicados_fuera :: "celda set \<Rightarrow> noticia list \<Rightarrow> noticia list" where
  "duplicados_fuera vistas [] = []"
| "duplicados_fuera vistas (n # ns) =
     (if url n \<in> vistas then duplicados_fuera vistas ns
      else n # duplicados_fuera (insert (url n) vistas) ns)"

definition drop_duplicates :: "noticia list \<Rightarrow> noticia list" where
  "drop_duplicates df = duplicados_fuera {} df"

text \<open>
  \<open>sort_values('fecha', ascending=False)\<close>: the dates are strings, compared as Python
  compares strings, and the rows with no date come last. pandas leaves the order of rows
  of equal date open; the model keeps them in the order they had, and no theorem below
  depends on that choice. \<open>va_antes\<close> tells whether a row of the first date is put before
  a row of the second that stood after it.
\<close>

definition va_antes :: "celda \<Rightarrow> celda \<Rightarrow> bool" where
  "va_antes fecha_n fecha_m =
     (case fecha_m of
        NaN \<Rightarrow> True
      | Texto a \<Rightarrow> (case fecha_n of NaN \<Rightarrow> False | Texto b \<Rightarrow> a \<le> b))"

fun insertar_desc :: "noticia \<Rightarrow> noticia list \<Rightarrow> noticia list" where
  "insertar_desc n [] = [n]"
| "insertar_desc n (m # ms) =
     (if va_antes (fecha n) (fecha m) then n # m # ms else m # insertar_desc n ms)"

definition sort_values_fecha :: "noticia list \<Rightarrow> noticia list" where
  "sort_values_fecha df = foldr insertar_desc df []"

text \<open>
  What a run leaves: the table, the call that writes it, and the two counts of the
  summary.
\<close>

record informe =
  df_final :: "noticia list"
  guardado :: escritura
  total_noticias :: nat
  nuevas_agregadas :: nat

definition ejecutar_scraping :: "archivo_excel \<Rightarrow> (sitio \<Rightarrow> respuesta) \<Rightarrow> string \<Rightarrow> informe" where
  "ejecutar_scraping archivo web hoy =
     (let df_existente = cargar_excel_existente archivo;
          e0 = \<lparr>urls_existentes = (if df_existente \<noteq> [] then set (map url df_existente) else {}),
                nuevas_noticias = []\<rparr>;
          e = foldl (\<lambda>e (nombre, scraper_func). correr_scraper e (scraper_func web hoy)) e0 scrapers;
          nuevas = nuevas_noticias e;
          combinado = (if nuevas \<noteq> [] then df_existente @ nuevas else df_existente);
          final = sort_values_fecha (drop_duplicates combinado)
      in \<lparr>df_final = final,
          guardado = guardar_excel final,
          total_noticias = length final,
          nuevas_agregadas = length nuevas\<rparr>)"

section \<open>Notions the statements use\<close>

text \<open>
  The candidates one run surfaces, across all sources, in the order the run meets them.
\<close>

definition candidatos :: "(sitio \<Rightarrow> respuesta) \<Rightarrow> string \<Rightarrow> noticia list" where
  "candidatos web hoy =
     concat (map (\<lambda>(nombre, scraper_func).
                    case scraper_func web hoy of None \<Rightarrow> [] | Some noticias \<Rightarrow> noticias)
                 scrapers)"

text \<open>
  What is known of the table \<open>read_excel\<close> returns for a file that \<open>to_excel\<close> wrote:
  it has a row for each row written, and cell by cell, a missing value, the empty text and
  a text of an equals sign and more are read back as a missing value; any other text is
  read back as it was, or as a missing value (the texts \<open>read_excel\<close> takes for a mark of
  no value, such as \<open>NA\<close>).
\<close>

definition se_pierde :: "celda \<Rightarrow> bool" where
  "se_pierde c =
     (case c of
        NaN \<Rightarrow> True
      | Texto s \<Rightarrow>
          (case s of
             [] \<Rightarrow> True
           | x # resto \<Rightarrow> x = CHR ''='' \<and> resto \<noteq> []))"

definition celda_releida :: "celda \<Rightarrow> celda \<Rightarrow> bool" where
  "celda_releida escrita leida =
     (if se_pierde escrita then leida = NaN else (leida = escrita \<or> leida = NaN))"

definition fila_releida :: "noticia \<Rightarrow> noticia \<Rightarrow> bool" where
  "fila_releida escrita leida =
     (celda_releida (fecha escrita) (fecha leida)
      \<and> celda_releida (titulo escrita) (titulo leida)
      \<and> celda_releida (fuente escrita) (fuente leida)
      \<and> celda_releida (ciudad escrita) (ciudad leida)
      \<and> celda_releida (url escrita) (url leida)
      \<and> celda_releida (resumen escrita) (resumen leida))"

definition tabla_releida :: "noticia list \<Rightarrow> noticia list \<Rightarrow> bool" where
  "tabla_releida escrita leida = list_all2 fila_releida escrita leida"

text \<open>
  A term occurs in a text without regard to case: at some position the text holds as many
  characters as the term has, equal to the term's once both are lower-cased.
\<close>

definition ocurre_sin_distinguir :: "string \<Rightarrow> string \<Rightarrow> bool" where
  "ocurre_sin_distinguir termino t =
     list_ex (\<lambda>i. lower (take (length termino) (drop i t)) = lower termino)
             [0..<Suc (length t)]"

text \<open>
  A text in which whitespace is the space character only, never twice in a row.
\<close>

fun colapsado :: "string \<Rightarrow> bool" where
  "colapsado [] = True"
| "colapsado [c] = (if es_espacio c then c = CHR '' '' else True)"
| "colapsado (c # d # cs) =
     ((if es_espacio c then c = CHR '' '' \<and> \<not> es_espacio d else True) \<and> colapsado (d # cs))"

section \<open>Lemmas on the text functions\<close>

lemma py_in_sublist: "py_in s t = sublist s t"
  by (induction t) (simp_all add: sublist_Cons_right)

lemma sublist_posicion:
  "sublist xs ys = (\<exists>i\<le>length ys. take (length xs) (drop i ys) = xs)"
proof
  assume "sublist xs ys"
  then obtain ps ss where "ys = ps @ xs @ ss" by (auto simp: sublist_def)
  then have "length ps \<le> length ys \<and> take (length xs) (drop (length ps) ys) = xs" by simp
  then show "\<exists>i\<le>length ys. take (length xs) (drop i ys) = xs" by blast
next
  assume "\<exists>i\<le>length ys. take (length xs) (drop i ys) = xs"
  then obtain i where i: "take (length xs) (drop i ys) = xs" by blast
  have "ys = take i ys @ take (length xs) (drop i ys) @ drop (length xs) (drop i ys)"
    by (simp only: append_take_drop_id)
  with i have "ys = take i ys @ xs @ drop (length xs) (drop i ys)" by simp
  then show "sublist xs ys" unfolding sublist_def by blast
qed

lemma es_espacio_blanco: "es_espacio (CHR '' '')"
  by (simp add: es_espacio_def)

lemma colapsado_no_espacio: "\<not> es_espacio c \<Longrightarrow> colapsado (c # xs) = colapsado xs"
  by (cases xs) simp_all

lemma colapsado_cola: "colapsado (c # xs) \<Longrightarrow> colapsado xs"
  by (cases xs) simp_all

lemma re_sub_cabeza:
  "xs \<noteq> [] \<Longrightarrow> \<not> es_espacio (hd xs) \<Longrightarrow> re_sub_espacios xs \<noteq> [] \<and> hd (re_sub_espacios xs) = hd xs"
  by (cases xs) simp_all

lemma colapsado_blanco:
  "colapsado (CHR '' '' # xs) = ((xs = [] \<or> \<not> es_espacio (hd xs)) \<and> colapsado xs)"
  by (cases xs) (simp_all add: es_espacio_blanco)

lemma re_sub_colapsado: "colapsado (re_sub_espacios t)"
proof (induction t rule: re_sub_espacios.induct)
  case 1
  show ?case by simp
next
  case (2 c cs)
  show ?case
  proof (cases "es_espacio c")
    case True
    let ?r = "dropWhile es_espacio cs"
    have ih: "colapsado (re_sub_espacios ?r)" using 2(1) True by simp
    have "re_sub_espacios ?r = [] \<or> \<not> es_espacio (hd (re_sub_espacios ?r))"
    proof (cases "?r = []")
      case True
      then have "re_sub_espacios ?r = []" by (simp only: re_sub_espacios.simps)
      then show ?thesis by blast
    next
      case False
      then have "\<not> es_espacio (hd ?r)" by (rule hd_dropWhile)
      with False show ?thesis using re_sub_cabeza [of ?r] by simp
    qed
    with ih True show ?thesis by (simp add: colapsado_blanco)
  next
    case False
    with 2(2) show ?thesis by (simp add: colapsado_no_espacio)
  qed
qed

lemma re_sub_fijo: "colapsado s \<Longrightarrow> re_sub_espacios s = s"
proof (induction s rule: colapsado.induct)
  case 1
  show ?case by simp
next
  case (2 c)
  then show ?case by (simp split: if_splits)
next
  case (3 c d cs)
  then show ?case by (auto split: if_splits)
qed

lemma colapsado_sufijo: "colapsado (xs @ ys) \<Longrightarrow> colapsado ys"
  by (induction xs) (auto dest: colapsado_cola)

lemma colapsado_prefijo: "colapsado (xs @ ys) \<Longrightarrow> colapsado xs"
proof (induction xs rule: colapsado.induct)
  case 1
  show ?case by simp
next
  case (2 c)
  then show ?case by (cases ys) (simp_all split: if_splits)
next
  case (3 c d cs)
  then show ?case by (simp split: if_splits)
qed

lemma strip_descompone:
  "\<exists>ps ss. s = ps @ strip s @ ss"
proof -
  let ?a = "dropWhile es_espacio s"
  have "s = takeWhile es_espacio s @ ?a" by simp
  moreover have "rev ?a = takeWhile es_espacio (rev ?a) @ dropWhile es_espacio (rev ?a)" by simp
  then have "?a = rev (dropWhile es_espacio (rev ?a)) @ rev (takeWhile es_espacio (rev ?a))"
    by (metis rev_append rev_rev_ident)
  ultimately have "s = takeWhile es_espacio s @ strip s @ rev (takeWhile es_espacio (rev ?a))"
    by (simp add: strip_def)
  then show ?thesis by blast
qed

lemma strip_colapsado: "colapsado s \<Longrightarrow> colapsado (strip s)"
  using strip_descompone [of s] by (metis colapsado_prefijo colapsado_sufijo)

lemma strip_extremos:
  "strip s = [] \<or> (\<not> es_espacio (hd (strip s)) \<and> \<not> es_espacio (last (strip s)))"
proof (cases "strip s = []")
  case True
  then show ?thesis by simp
next
  case False
  let ?a = "dropWhile es_espacio s"
  let ?b = "dropWhile es_espacio (rev ?a)"
  have b: "?b \<noteq> []" using False by (simp add: strip_def)
  then have ult: "\<not> es_espacio (hd ?b)" by (rule hd_dropWhile)
  have a: "?a \<noteq> []"
  proof
    assume "?a = []"
    then have "?b = []" by (simp only: rev.simps dropWhile.simps)
    with b show False by blast
  qed
  then have pri: "\<not> es_espacio (hd ?a)" by (rule hd_dropWhile)
  have "last (strip s) = hd ?b" using b by (simp add: strip_def last_rev)
  moreover have "hd (strip s) = hd ?a"
  proof -
    obtain ps ss where "s = ps @ strip s @ ss" using strip_descompone by blast
    have "rev ?a = takeWhile es_espacio (rev ?a) @ ?b" by simp
    then have "?a = rev ?b @ rev (takeWhile es_espacio (rev ?a))"
      by (metis rev_append rev_rev_ident)
    then have "hd ?a = hd (rev ?b)" using b by (metis hd_append2 rev_is_Nil_conv)
    then show ?thesis by (simp add: strip_def)
  qed
  ultimately show ?thesis using ult pri by simp
qed

lemma strip_fijo:
  assumes "s = [] \<or> (\<not> es_espacio (hd s) \<and> \<not> es_espacio (last s))"
  shows "strip s = s"
proof (cases "s = []")
  case True
  then show ?thesis by (simp add: strip_def)
next
  case False
  with assms have h: "\<not> es_espacio (hd s)" and l: "\<not> es_espacio (last s)" by simp_all
  from False h have 1: "dropWhile es_espacio s = s" by (cases s) simp_all
  from False l have "dropWhile es_espacio (rev s) = rev s"
    by (cases "rev s") (simp_all add: last_rev [symmetric] hd_rev)
  with 1 show ?thesis by (simp add: strip_def)
qed

lemma lower_take: "lower (take n s) = take n (lower s)"
  by (simp add: lower_def take_map)

lemma lower_drop: "lower (drop n s) = drop n (lower s)"
  by (simp add: lower_def drop_map)

lemma py_in_lower_ocurre: "py_in (lower s) (lower t) = ocurre_sin_distinguir s t"
proof -
  have "py_in (lower s) (lower t)
          = (\<exists>i\<le>length (lower t). take (length (lower s)) (drop i (lower t)) = lower s)"
    by (simp only: py_in_sublist sublist_posicion)
  also have "\<dots> = (\<exists>i\<le>length t. lower (take (length s) (drop i t)) = lower s)"
    by (simp add: lower_take lower_drop) (simp add: lower_def)
  also have "\<dots> = ocurre_sin_distinguir s t"
    unfolding ocurre_sin_distinguir_def list_ex_iff set_upt Bex_def atLeastLessThan_iff
    by (simp add: less_Suc_eq_le)
  finally show ?thesis .
qed

lemma terminos_no_vacios: "list_all (\<lambda>termino. termino \<noteq> []) TERMINOS_JUVENTUD"
  by (simp add: TERMINOS_JUVENTUD_def)

lemma ocurre_en_vacio: "ocurre_sin_distinguir termino [] = (termino = [])"
  by (auto simp: ocurre_sin_distinguir_def lower_def)

lemma buscar_ciudad_find:
  "buscar_ciudad tabla texto_lower =
     map_option snd (find (\<lambda>(k, n). n \<noteq> ''Colombia'' \<and> sublist k texto_lower) tabla)"
  by (induction tabla texto_lower rule: buscar_ciudad.induct) (simp_all add: py_in_sublist)

lemma claves_no_vacias: "list_all (\<lambda>(k, n). k \<noteq> []) CIUDADES_COLOMBIA"
  by (simp add: CIUDADES_COLOMBIA_def)

lemma find_en_vacio:
  "list_all (\<lambda>(k, n). k \<noteq> []) tabla \<Longrightarrow>
   find (\<lambda>(k, n). n \<noteq> ''Colombia'' \<and> sublist k []) tabla = None"
  by (induction tabla) auto

section \<open>The text functions: results\<close>

text \<open>
  C7. \<open>limpiar_texto\<close> is idempotent: cleaning a cleaned text gives it back. Cleaning
  replaces every run of whitespace (newlines and tabs too) by one space and removes the
  whitespace at both ends: in a cleaned text whitespace is the space character only, never
  twice in a row, and never at either end.
\<close>

theorem limpiar_texto_idempotente:
  "limpiar_texto (Some (limpiar_texto x)) = limpiar_texto x
   \<and> colapsado (limpiar_texto x)
   \<and> (limpiar_texto x = []
      \<or> (\<not> es_espacio (hd (limpiar_texto x)) \<and> \<not> es_espacio (last (limpiar_texto x))))"
proof -
  have forma: "colapsado (strip (re_sub_espacios t))" for t
    by (rule strip_colapsado) (rule re_sub_colapsado)
  have fijo: "strip (re_sub_espacios (strip (re_sub_espacios t))) = strip (re_sub_espacios t)"
    for t
  proof -
    let ?n = "strip (re_sub_espacios t)"
    from forma have "re_sub_espacios ?n = ?n" by (rule re_sub_fijo)
    moreover have "strip ?n = ?n" by (rule strip_fijo) (rule strip_extremos)
    ultimately show ?thesis by simp
  qed
  have 1: "limpiar_texto (Some (limpiar_texto x)) = limpiar_texto x"
    by (cases x) (simp_all add: limpiar_texto_def fijo)
  have 2: "colapsado (limpiar_texto x)"
    by (cases x) (simp_all add: limpiar_texto_def forma)
  have 3: "limpiar_texto x = []
      \<or> (\<not> es_espacio (hd (limpiar_texto x)) \<and> \<not> es_espacio (last (limpiar_texto x)))"
  proof (cases x)
    case None
    then show ?thesis by (simp add: limpiar_texto_def)
  next
    case (Some t)
    show ?thesis
    proof (cases "t = []")
      case True
      with Some show ?thesis by (simp add: limpiar_texto_def)
    next
      case False
      with Some have "limpiar_texto x = strip (re_sub_espacios t)"
        by (simp add: limpiar_texto_def)
      with strip_extremos [of "re_sub_espacios t"] show ?thesis by simp
    qed
  qed
  from 1 2 3 show ?thesis by blast
qed

text \<open>
  C4. \<open>contiene_terminos_juventud\<close> is true exactly when some term of
  \<open>TERMINOS_JUVENTUD\<close> occurs in the text without regard to case, at some position; it is
  false for the absent text and for the empty one.
\<close>

theorem contiene_terminos_juventud_iff:
  "contiene_terminos_juventud texto =
     (case texto of
        None \<Rightarrow> False
      | Some t \<Rightarrow> list_ex (\<lambda>termino. ocurre_sin_distinguir termino t) TERMINOS_JUVENTUD)
   \<and> contiene_terminos_juventud None = False
   \<and> contiene_terminos_juventud (Some []) = False"
proof (intro conjI)
  show "contiene_terminos_juventud texto =
     (case texto of
        None \<Rightarrow> False
      | Some t \<Rightarrow> list_ex (\<lambda>termino. ocurre_sin_distinguir termino t) TERMINOS_JUVENTUD)"
  proof (cases texto)
    case None
    then show ?thesis by (simp add: contiene_terminos_juventud_def)
  next
    case (Some t)
    show ?thesis
    proof (cases "t = []")
      case True
      have "\<not> list_ex (\<lambda>termino. ocurre_sin_distinguir termino []) TERMINOS_JUVENTUD"
        using terminos_no_vacios by (simp add: ocurre_en_vacio list_ex_iff list_all_iff)
      with Some True show ?thesis by (simp add: contiene_terminos_juventud_def)
    next
      case False
      with Some show ?thesis
        by (simp add: contiene_terminos_juventud_def py_in_lower_ocurre)
    qed
  qed
  show "contiene_terminos_juventud None = False"
    by (simp add: contiene_terminos_juventud_def)
  show "contiene_terminos_juventud (Some []) = False"
    by (simp add: contiene_terminos_juventud_def)
qed

lemma rsplit_primero_prefijo: "prefix (rsplit_primero s) s"
proof (cases "CHR '' '' \<in> set s")
  case False
  then show ?thesis by (simp add: rsplit_primero_def)
next
  case True
  let ?P = "\<lambda>c. c \<noteq> CHR '' ''"
  let ?d = "dropWhile ?P (rev s)"
  from True have "?d \<noteq> []" by (simp add: dropWhile_eq_Nil_conv)
  then obtain x resto where d: "?d = x # resto" by (cases ?d) auto
  have "rev s = takeWhile ?P (rev s) @ ?d" by simp
  with d have "rev s = takeWhile ?P (rev s) @ x # resto" by simp
  then have "rev (rev s) = rev (takeWhile ?P (rev s) @ x # resto)" by (rule arg_cong)
  then have "s = rev resto @ (x # rev (takeWhile ?P (rev s)))" by simp
  then have "prefix (rev resto) s" by (metis prefixI)
  with True d show ?thesis by (simp add: rsplit_primero_def)
qed

lemma slice_hasta_acotado: "0 \<le> n \<Longrightarrow> prefix (slice_hasta s n) s \<and> int (length (slice_hasta s n)) \<le> n"
  by (simp add: slice_hasta_def take_is_prefix)

text \<open>
  C3. \<open>obtener_resumen\<close> cleans the text first. A cleaned text that fits in
  \<open>max_chars\<close> is returned as it is; a longer one is cut: the result is a beginning of
  the cleaned text, of at most \<open>max_chars\<close> characters, followed by the three dots. The
  bound is a number of characters, so it is not negative (the scrapers pass the default,
  250); \<open>slice_hasta\<close> says what Python's slice does below zero.
\<close>

theorem obtener_resumen_acotado:
  assumes "0 \<le> max_chars"
  shows "(int (length (limpiar_texto texto)) \<le> max_chars \<longrightarrow>
            obtener_resumen texto max_chars = limpiar_texto texto)
       \<and> (max_chars < int (length (limpiar_texto texto)) \<longrightarrow>
            (\<exists>cuerpo. obtener_resumen texto max_chars = cuerpo @ ''...''
                     \<and> prefix cuerpo (limpiar_texto texto)
                     \<and> int (length cuerpo) \<le> max_chars))"
proof (intro conjI impI)
  assume "int (length (limpiar_texto texto)) \<le> max_chars"
  then show "obtener_resumen texto max_chars = limpiar_texto texto"
    by (simp add: obtener_resumen_def)
next
  assume largo: "max_chars < int (length (limpiar_texto texto))"
  let ?t = "limpiar_texto texto"
  let ?c = "rsplit_primero (slice_hasta ?t max_chars)"
  have 1: "obtener_resumen texto max_chars = ?c @ ''...''"
    using largo by (simp add: obtener_resumen_def Let_def)
  have p: "prefix ?c (slice_hasta ?t max_chars)" by (rule rsplit_primero_prefijo)
  have q: "prefix (slice_hasta ?t max_chars) ?t" "int (length (slice_hasta ?t max_chars)) \<le> max_chars"
    using slice_hasta_acotado [OF assms, of ?t] by simp_all
  from p q(1) have 2: "prefix ?c ?t" by (rule prefix_order.trans)
  from p have "length ?c \<le> length (slice_hasta ?t max_chars)" by (rule prefix_length_le)
  with q(2) have 3: "int (length ?c) \<le> max_chars" by simp
  from 1 2 3 show "\<exists>cuerpo. obtener_resumen texto max_chars = cuerpo @ ''...''
                     \<and> prefix cuerpo (limpiar_texto texto)
                     \<and> int (length cuerpo) \<le> max_chars" by blast
qed

theorem obtener_resumen_acotado_witness:
  "(0::int) \<le> 6
   \<and> 6 < int (length (limpiar_texto (Some ''  hola   que  tal  '')))
   \<and> obtener_resumen (Some ''  hola   que  tal  '') 6 = ''hola...''
   \<and> (\<exists>cuerpo. obtener_resumen (Some ''  hola   que  tal  '') 6 = cuerpo @ ''...''
               \<and> prefix cuerpo (limpiar_texto (Some ''  hola   que  tal  ''))
               \<and> int (length cuerpo) \<le> 6)"
proof -
  have h: "(0::int) \<le> 6" by simp
  have l: "6 < int (length (limpiar_texto (Some ''  hola   que  tal  '')))" by code_simp
  have v: "obtener_resumen (Some ''  hola   que  tal  '') 6 = ''hola...''" by code_simp
  from obtener_resumen_acotado [OF h, of "Some ''  hola   que  tal  ''"] l h v
  show ?thesis by blast
qed

lemma detectar_ciudad_en_find:
  assumes "list_all (\<lambda>(k, n). k \<noteq> []) tabla"
  shows "detectar_ciudad_en tabla (Some t) =
     (case find (\<lambda>(k, n). n \<noteq> ''Colombia'' \<and> sublist k (lower t)) tabla of
        Some (k, n) \<Rightarrow> n
      | None \<Rightarrow> if sublist ''colombia'' (lower t) then ''Colombia'' else ''Sin identificar'')"
proof (cases "t = []")
  case True
  with find_en_vacio [OF assms] show ?thesis
    by (simp add: detectar_ciudad_en_def lower_def)
next
  case False
  then show ?thesis
    by (simp add: detectar_ciudad_en_def buscar_ciudad_find py_in_sublist
             split: option.splits prod.splits)
qed

text \<open>
  C2. \<open>detectar_ciudad\<close>, as it is: it returns the name of the first entry of
  \<open>CIUDADES_COLOMBIA\<close>, in the order of the declaration, whose name is not \<open>Colombia\<close>
  and whose key occurs in the lower-cased text; with no such entry it returns \<open>Colombia\<close>
  when \<open>colombia\<close> occurs, and \<open>Sin identificar\<close> otherwise. A text that holds the key
  of Medellin and \<open>colombia\<close> gives Medellin when neither key of Bogota, the two entries
  declared before it, occurs.
\<close>

theorem detectar_ciudad_primera_especifica:
  "detectar_ciudad (Some t) =
     (case find (\<lambda>(k, n). n \<noteq> ''Colombia'' \<and> sublist k (lower t)) CIUDADES_COLOMBIA of
        Some (k, n) \<Rightarrow> n
      | None \<Rightarrow> if sublist ''colombia'' (lower t) then ''Colombia'' else ''Sin identificar'')
   \<and> (sublist (''medell'' @ [i_acento] @ ''n'') (lower t) \<and> sublist ''colombia'' (lower t)
        \<and> \<not> sublist (''bogot'' @ [a_acento]) (lower t) \<and> \<not> sublist ''bogota'' (lower t)
      \<longrightarrow> detectar_ciudad (Some t) = ''Medell'' @ [i_acento] @ ''n'')"
proof -
  have gen: "detectar_ciudad (Some t) =
     (case find (\<lambda>(k, n). n \<noteq> ''Colombia'' \<and> sublist k (lower t)) CIUDADES_COLOMBIA of
        Some (k, n) \<Rightarrow> n
      | None \<Rightarrow> if sublist ''colombia'' (lower t) then ''Colombia'' else ''Sin identificar'')"
    unfolding detectar_ciudad_def by (rule detectar_ciudad_en_find) (rule claves_no_vacias)
  have part: "detectar_ciudad (Some t) = ''Medell'' @ [i_acento] @ ''n''"
    if "sublist (''medell'' @ [i_acento] @ ''n'') (lower t)"
      and "\<not> sublist (''bogot'' @ [a_acento]) (lower t)" and "\<not> sublist ''bogota'' (lower t)"
    using that unfolding gen by (simp add: CIUDADES_COLOMBIA_def)
  from gen part show ?thesis by blast
qed

theorem detectar_ciudad_primera_especifica_witness:
  "sublist (''medell'' @ [i_acento] @ ''n'') (lower (''En MEDELL'' @ [CHR 0xCD] @ ''N, Colombia''))
   \<and> sublist ''colombia'' (lower (''En MEDELL'' @ [CHR 0xCD] @ ''N, Colombia''))
   \<and> \<not> sublist (''bogot'' @ [a_acento]) (lower (''En MEDELL'' @ [CHR 0xCD] @ ''N, Colombia''))
   \<and> \<not> sublist ''bogota'' (lower (''En MEDELL'' @ [CHR 0xCD] @ ''N, Colombia''))
   \<and> detectar_ciudad (Some (''En MEDELL'' @ [CHR 0xCD] @ ''N, Colombia'')) = ''Medell'' @ [i_acento] @ ''n''"
proof -
  let ?t = "''En MEDELL'' @ [CHR 0xCD] @ ''N, Colombia''"
  have a: "sublist (''medell'' @ [i_acento] @ ''n'') (lower ?t)" by code_simp
  have b: "sublist ''colombia'' (lower ?t)" by code_simp
  have c: "\<not> sublist (''bogot'' @ [a_acento]) (lower ?t)" by code_simp
  have d: "\<not> sublist ''bogota'' (lower ?t)" by code_simp
  from detectar_ciudad_primera_especifica [of ?t] a b c d show ?thesis by blast
qed

text \<open>
  C2, as it was stated, fails: a text with the keys of Bogota and of Medellin, and
  \<open>colombia\<close>, is classified as Bogota, the entry declared first.
\<close>

theorem detectar_ciudad_medellin_counterexample:
  "sublist (''medell'' @ [i_acento] @ ''n'')
     (''J'' @ [o_acento] @ ''venes de bogot'' @ [a_acento] @ '' y medell'' @ [i_acento] @ ''n, colombia'')
   \<and> sublist ''colombia''
     (''J'' @ [o_acento] @ ''venes de bogot'' @ [a_acento] @ '' y medell'' @ [i_acento] @ ''n, colombia'')
   \<and> detectar_ciudad
       (Some (''J'' @ [o_acento] @ ''venes de bogot'' @ [a_acento] @ '' y medell'' @ [i_acento] @ ''n, colombia''))
     = ''Bogot'' @ [a_acento]
   \<and> ''Bogot'' @ [a_acento] \<noteq> ''Medell'' @ [i_acento] @ ''n''"
  by code_simp

text \<open>
  C10. For the absent text and for the empty one \<open>detectar_ciudad\<close> returns
  \<open>Sin identificar\<close> at once: the result is the same whatever the table of cities holds.
\<close>

theorem detectar_ciudad_sin_texto:
  "detectar_ciudad_en tabla None = ''Sin identificar''
   \<and> detectar_ciudad_en tabla (Some []) = ''Sin identificar''
   \<and> detectar_ciudad None = ''Sin identificar''
   \<and> detectar_ciudad (Some []) = ''Sin identificar''"
  by (simp add: detectar_ciudad_def detectar_ciudad_en_def)

section \<open>The run: lemmas and results\<close>

lemma urls_foldl_registrar:
  "urls_existentes (foldl registrar e ns) = urls_existentes e \<union> url ` set ns"
  by (induction ns arbitrary: e) (auto simp: registrar_def)

lemma nuevas_foldl_registrar:
  "nuevas_noticias (foldl registrar e ns)
     = nuevas_noticias e @ duplicados_fuera (urls_existentes e) ns"
  by (induction ns arbitrary: e) (auto simp: registrar_def)

lemma foldl_scrapers:
  "foldl (\<lambda>e (nombre, scraper_func). correr_scraper e (scraper_func web hoy)) e lista
     = foldl registrar e
         (concat (map (\<lambda>(nombre, scraper_func).
                         case scraper_func web hoy of None \<Rightarrow> [] | Some noticias \<Rightarrow> noticias)
                      lista))"
  by (induction lista arbitrary: e) (auto simp: correr_scraper_def split: option.splits)

lemma duplicados_fuera_append:
  "duplicados_fuera S (xs @ ys)
     = duplicados_fuera S xs @ duplicados_fuera (S \<union> url ` set xs) ys"
  by (induction xs arbitrary: S) (auto simp: insert_absorb)

lemma duplicados_fuera_otra_vez:
  "S' \<subseteq> S \<Longrightarrow> duplicados_fuera S' (duplicados_fuera S xs) = duplicados_fuera S xs"
proof (induction xs arbitrary: S S')
  case Nil
  show ?case by simp
next
  case (Cons x xs)
  show ?case
  proof (cases "url x \<in> S")
    case True
    with Cons show ?thesis by simp
  next
    case False
    with Cons.prems have "url x \<notin> S'" by blast
    moreover from Cons.prems have "insert (url x) S' \<subseteq> insert (url x) S" by blast
    ultimately show ?thesis using False Cons.IH by simp
  qed
qed

lemma duplicados_fuera_urls:
  "url ` set (duplicados_fuera S xs) = url ` set xs - S"
  by (induction xs arbitrary: S) auto

lemma duplicados_fuera_subconjunto: "set (duplicados_fuera S xs) \<subseteq> set xs"
  by (induction xs arbitrary: S) auto

lemma duplicados_fuera_distinct: "distinct (map url (duplicados_fuera S xs))"
  by (induction xs arbitrary: S) (auto simp: duplicados_fuera_urls)

lemma duplicados_fuera_find:
  "find (\<lambda>r. url r = u) (duplicados_fuera S xs)
     = (if u \<in> S then None else find (\<lambda>r. url r = u) xs)"
  by (induction xs arbitrary: S) auto

lemma duplicados_fuera_nada:
  "url ` set xs \<subseteq> S \<Longrightarrow> duplicados_fuera S xs = []"
  by (induction xs) auto

lemma duplicados_fuera_todo:
  "distinct (map url xs) \<Longrightarrow> S \<inter> url ` set xs = {} \<Longrightarrow> duplicados_fuera S xs = xs"
  by (induction xs arbitrary: S) auto

lemma set_insertar_desc: "set (insertar_desc n ms) = insert n (set ms)"
  by (induction ms) auto

lemma length_insertar_desc: "length (insertar_desc n ms) = Suc (length ms)"
  by (induction ms) auto

lemma distinct_insertar_desc:
  "distinct (map url (insertar_desc n ms)) = (url n \<notin> url ` set ms \<and> distinct (map url ms))"
  by (induction ms) (auto simp: set_insertar_desc)

lemma set_sort_values_fecha: "set (sort_values_fecha df) = set df"
  by (induction df) (simp_all add: sort_values_fecha_def set_insertar_desc)

lemma length_sort_values_fecha: "length (sort_values_fecha df) = length df"
  by (induction df) (simp_all add: sort_values_fecha_def length_insertar_desc)

lemma distinct_sort_values_fecha:
  "distinct (map url (sort_values_fecha df)) = distinct (map url df)"
proof (induction df)
  case Nil
  show ?case by (simp add: sort_values_fecha_def)
next
  case (Cons n df)
  have "sort_values_fecha (n # df) = insertar_desc n (sort_values_fecha df)"
    by (simp add: sort_values_fecha_def)
  with Cons show ?case
    by (simp add: distinct_insertar_desc set_sort_values_fecha)
qed

lemma find_url_distinct:
  "distinct (map url xs) \<Longrightarrow> (find (\<lambda>r. url r = u) xs = Some r) = (r \<in> set xs \<and> url r = u)"
  by (induction xs) (auto simp: image_iff)

lemma find_url_por_conjunto:
  assumes "distinct (map url xs)" and "distinct (map url ys)" and "set xs = set ys"
  shows "find (\<lambda>r. url r = u) xs = find (\<lambda>r. url r = u) ys"
proof (cases "find (\<lambda>r. url r = u) xs")
  case None
  then have "\<forall>r\<in>set ys. url r \<noteq> u" using assms(3) by (simp add: find_None_iff)
  then have "find (\<lambda>r. url r = u) ys = None" by (simp add: find_None_iff)
  with None show ?thesis by simp
next
  case (Some r)
  then have "r \<in> set ys \<and> url r = u" using assms(1,3) by (simp add: find_url_distinct)
  then have "find (\<lambda>r. url r = u) ys = Some r" using assms(2) by (simp add: find_url_distinct)
  with Some show ?thesis by simp
qed

lemma find_en_append:
  "find P (xs @ ys) = (case find P xs of Some r \<Rightarrow> Some r | None \<Rightarrow> find P ys)"
  by (induction xs) simp_all

lemma nuevas_de_la_corrida:
  "nuevas_noticias
     (foldl (\<lambda>e (nombre, scraper_func). correr_scraper e (scraper_func web hoy))
        \<lparr>urls_existentes = (if df \<noteq> [] then set (map url df) else {}), nuevas_noticias = []\<rparr>
        scrapers)
   = duplicados_fuera (url ` set df) (candidatos web hoy)"
proof -
  have "(if df \<noteq> [] then set (map url df) else {}) = url ` set df" by simp
  then show ?thesis
    by (simp only: foldl_scrapers nuevas_foldl_registrar candidatos_def) simp
qed

lemma combinado_sin_duplicados:
  "drop_duplicates (df @ duplicados_fuera (url ` set df) cs) = drop_duplicates (df @ cs)"
  by (simp add: drop_duplicates_def duplicados_fuera_append duplicados_fuera_otra_vez)

lemma df_final_ejecutar_scraping:
  "df_final (ejecutar_scraping archivo web hoy)
     = sort_values_fecha (drop_duplicates (cargar_excel_existente archivo @ candidatos web hoy))"
proof -
  let ?df = "cargar_excel_existente archivo"
  let ?n = "duplicados_fuera (url ` set ?df) (candidatos web hoy)"
  have b: "(if ?n \<noteq> [] then ?df @ ?n else ?df) = ?df @ ?n" by simp
  have c: "drop_duplicates (?df @ ?n) = drop_duplicates (?df @ candidatos web hoy)"
    by (rule combinado_sin_duplicados)
  show ?thesis
    unfolding ejecutar_scraping_def Let_def nuevas_de_la_corrida
    by (simp only: b c informe.select_convs)
qed

lemma nuevas_ejecutar_scraping:
  "nuevas_agregadas (ejecutar_scraping archivo web hoy)
     = length (duplicados_fuera (url ` set (cargar_excel_existente archivo)) (candidatos web hoy))"
  by (simp add: ejecutar_scraping_def Let_def nuevas_de_la_corrida del: set_map)

lemma total_ejecutar_scraping:
  "total_noticias (ejecutar_scraping archivo web hoy)
     = length (df_final (ejecutar_scraping archivo web hoy))"
  by (simp add: ejecutar_scraping_def Let_def)

text \<open>
  C1. Whatever the file held and whatever the sources return, no two rows of the table a
  run persists have the same url, and the row it keeps for a url is the first one with
  that url in the rows loaded from the file followed by the candidates of the run, in
  that order: the first row of the file with that url when there is one, the first
  candidate with it otherwise.
\<close>

theorem url_unica_primera_gana:
  "distinct (map url (df_final (ejecutar_scraping archivo web hoy)))
   \<and> find (\<lambda>r. url r = u) (df_final (ejecutar_scraping archivo web hoy))
       = (case find (\<lambda>r. url r = u) (cargar_excel_existente archivo) of
            Some r \<Rightarrow> Some r
          | None \<Rightarrow> find (\<lambda>r. url r = u) (candidatos web hoy))"
proof -
  let ?todo = "cargar_excel_existente archivo @ candidatos web hoy"
  let ?d = "drop_duplicates ?todo"
  have d: "distinct (map url ?d)" by (simp add: drop_duplicates_def duplicados_fuera_distinct)
  then have s: "distinct (map url (sort_values_fecha ?d))"
    by (simp only: distinct_sort_values_fecha)
  have "find (\<lambda>r. url r = u) (sort_values_fecha ?d) = find (\<lambda>r. url r = u) ?d"
    using s d by (rule find_url_por_conjunto) (rule set_sort_values_fecha)
  also have "\<dots> = find (\<lambda>r. url r = u) ?todo"
    by (simp add: drop_duplicates_def duplicados_fuera_find)
  also have "\<dots> = (case find (\<lambda>r. url r = u) (cargar_excel_existente archivo) of
            Some r \<Rightarrow> Some r
          | None \<Rightarrow> find (\<lambda>r. url r = u) (candidatos web hoy))"
    by (rule find_en_append)
  finally show ?thesis using s by (simp only: df_final_ejecutar_scraping) 
qed

section \<open>Admission and loading\<close>

lemma lower_append: "lower (a @ b) = lower a @ lower b"
  by (simp add: lower_def)

lemma contiene_a_la_izquierda:
  assumes "contiene_terminos_juventud (Some a)"
  shows "contiene_terminos_juventud (Some (a @ b))"
proof -
  from assms have a: "a \<noteq> []"
    and "list_ex (\<lambda>termino. sublist (lower termino) (lower a)) TERMINOS_JUVENTUD"
    by (auto simp: contiene_terminos_juventud_def py_in_sublist split: if_splits)
  then obtain termino where t: "termino \<in> set TERMINOS_JUVENTUD"
    and s: "sublist (lower termino) (lower a)" by (auto simp: list_ex_iff)
  from s have "sublist (lower termino) (lower (a @ b))"
    by (simp add: lower_append sublist_appendI sublist_order.order.trans)
  with t a show ?thesis
    by (auto simp: contiene_terminos_juventud_def py_in_sublist list_ex_iff)
qed

lemma contiene_a_la_derecha:
  assumes "contiene_terminos_juventud (Some b)"
  shows "contiene_terminos_juventud (Some (a @ b))"
proof -
  from assms have b: "b \<noteq> []"
    and "list_ex (\<lambda>termino. sublist (lower termino) (lower b)) TERMINOS_JUVENTUD"
    by (auto simp: contiene_terminos_juventud_def py_in_sublist split: if_splits)
  then obtain termino where t: "termino \<in> set TERMINOS_JUVENTUD"
    and s: "sublist (lower termino) (lower b)" by (auto simp: list_ex_iff)
  have "sublist (lower b) (lower (a @ b))"
    by (simp add: lower_append)
  with s have "sublist (lower termino) (lower (a @ b))"
    by (rule sublist_order.order.trans)
  with t b show ?thesis
    by (auto simp: contiene_terminos_juventud_def py_in_sublist list_ex_iff)
qed

text \<open>
  C5. What the scrapers do: a container with a link gives a record exactly when the title
  or the paragraph, each tested alone, holds a term. A record that is given is then
  relevant on the text \<open>titulo + ' ' + resumen\<close> too; the converse is not so.
\<close>

theorem admitido_titulo_o_resumen:
  "(extraer nombre_fuente defecto_bogota hoy (Articulo href titulo_crudo resumen_crudo) \<noteq> None)
     = (contiene_terminos_juventud (Some titulo_crudo)
        \<or> contiene_terminos_juventud (Some resumen_crudo))
   \<and> (extraer nombre_fuente defecto_bogota hoy (Articulo href titulo_crudo resumen_crudo) \<noteq> None
      \<longrightarrow> contiene_terminos_juventud (Some (titulo_crudo @ '' '' @ resumen_crudo)))"
proof -
  have 1: "(extraer nombre_fuente defecto_bogota hoy (Articulo href titulo_crudo resumen_crudo) \<noteq> None)
     = (contiene_terminos_juventud (Some titulo_crudo)
        \<or> contiene_terminos_juventud (Some resumen_crudo))"
    by (simp add: extraer_def Let_def)
  have 2: "contiene_terminos_juventud (Some (titulo_crudo @ '' '' @ resumen_crudo))"
    if "contiene_terminos_juventud (Some titulo_crudo)
        \<or> contiene_terminos_juventud (Some resumen_crudo)"
  proof -
    from that show ?thesis
    proof
      assume "contiene_terminos_juventud (Some titulo_crudo)"
      then show ?thesis by (rule contiene_a_la_izquierda)
    next
      assume "contiene_terminos_juventud (Some resumen_crudo)"
      then have "contiene_terminos_juventud (Some ((titulo_crudo @ '' '') @ resumen_crudo))"
        by (rule contiene_a_la_derecha)
      then show ?thesis by simp
    qed
  qed
  from 1 2 show ?thesis by blast
qed

theorem admitido_titulo_o_resumen_witness:
  "extraer ''Blu Radio'' False ''2024-05-02''
     (Articulo ''https://www.bluradio.com/nota/1''
        (''J'' @ [o_acento] @ ''venes marchan en Bogot'' @ [a_acento])
        (''Cientos de j'' @ [o_acento] @ ''venes...'')) \<noteq> None
   \<and> contiene_terminos_juventud
        (Some ((''J'' @ [o_acento] @ ''venes marchan en Bogot'' @ [a_acento]) @ '' ''
               @ (''Cientos de j'' @ [o_acento] @ ''venes...'')))"
proof -
  have a: "extraer ''Blu Radio'' False ''2024-05-02''
     (Articulo ''https://www.bluradio.com/nota/1''
        (''J'' @ [o_acento] @ ''venes marchan en Bogot'' @ [a_acento])
        (''Cientos de j'' @ [o_acento] @ ''venes...'')) \<noteq> None"
    by code_simp
  from a admitido_titulo_o_resumen [of "''Blu Radio''" False "''2024-05-02''"
      "''https://www.bluradio.com/nota/1''"
      "''J'' @ [o_acento] @ ''venes marchan en Bogot'' @ [a_acento]"
      "''Cientos de j'' @ [o_acento] @ ''venes...''"]
  show ?thesis by blast
qed

text \<open>
  C5, as it was stated, fails: the term \<open>menor de edad\<close> occurs in the concatenation
  of the title \<open>Un menor\<close> and the paragraph \<open>de edad fue hallado\<close>, in neither of the
  two alone, and the container is dropped.
\<close>

theorem admitido_concatenacion_counterexample:
  "contiene_terminos_juventud (Some (''Un menor'' @ '' '' @ ''de edad fue hallado''))
   \<and> extraer ''Blu Radio'' False ''2024-05-02''
       (Articulo ''https://www.bluradio.com/nota/2'' ''Un menor'' ''de edad fue hallado'') = None"
  by code_simp

text \<open>
  C9. A sheet without the column \<open>ciudad\<close> is loaded row for row, every row with the
  city \<open>Sin identificar\<close> and its other columns as they were; with no file the table is
  empty.
\<close>

theorem cargar_sin_columna_ciudad:
  "length (cargar_excel_existente (Legible (Sin_ciudad filas))) = length filas
   \<and> map ciudad (cargar_excel_existente (Legible (Sin_ciudad filas)))
       = replicate (length filas) (Texto ''Sin identificar'')
   \<and> map url (cargar_excel_existente (Legible (Sin_ciudad filas))) = map url_fila filas
   \<and> map titulo (cargar_excel_existente (Legible (Sin_ciudad filas))) = map titulo_fila filas
   \<and> map fecha (cargar_excel_existente (Legible (Sin_ciudad filas))) = map fecha_fila filas
   \<and> map fuente (cargar_excel_existente (Legible (Sin_ciudad filas))) = map fuente_fila filas
   \<and> map resumen (cargar_excel_existente (Legible (Sin_ciudad filas))) = map resumen_fila filas
   \<and> cargar_excel_existente No_existe = []"
  by (induction filas) (simp_all add: cargar_excel_existente_def agregar_ciudad_def)

section \<open>Repeated runs and failing sources\<close>

lemma url_extraer:
  "map_option url (extraer n b hoy art) = map_option url (extraer n b hoy2 art)"
  by (cases art) (simp_all add: extraer_def Let_def)

lemma url_map_filter_extraer:
  "map url (List.map_filter (extraer n b hoy) arts)
     = map url (List.map_filter (extraer n b hoy2) arts)"
proof (induction arts)
  case Nil
  show ?case by (simp add: List.map_filter_simps)
next
  case (Cons a arts)
  from url_extraer [of n b hoy a hoy2] Cons show ?case
    by (cases "extraer n b hoy a"; cases "extraer n b hoy2 a")
       (simp_all add: List.map_filter_simps)
qed

lemma url_scrape_fuente:
  "map url (case scrape_fuente n b hoy r of None \<Rightarrow> [] | Some ns \<Rightarrow> ns)
     = map url (case scrape_fuente n b hoy2 r of None \<Rightarrow> [] | Some ns \<Rightarrow> ns)"
  by (cases r) (simp_all add: scrape_fuente_def url_map_filter_extraer [of n b hoy _ hoy2])

lemma url_candidatos: "map url (candidatos web hoy) = map url (candidatos web hoy2)"
  by (simp add: candidatos_def scrapers_def scrape_bluradio_def scrape_caracol_def
        scrape_alertabogota_def scrape_redmas_def scrape_pulzo_def scrape_infobae_def
        scrape_diarioadn_def url_scrape_fuente [of _ _ hoy _ hoy2])

lemma candidatos_sin_respuesta: "candidatos (\<lambda>s. Sin_respuesta) hoy = []"
  by (simp add: candidatos_def scrapers_def scrape_bluradio_def scrape_caracol_def
        scrape_alertabogota_def scrape_redmas_def scrape_pulzo_def scrape_infobae_def
        scrape_diarioadn_def scrape_fuente_def)

lemma drop_duplicates_distinct: "distinct (map url df) \<Longrightarrow> drop_duplicates df = df"
  by (simp add: drop_duplicates_def duplicados_fuera_todo)

lemma urls_df_final:
  "url ` set (df_final (ejecutar_scraping archivo web hoy))
     = url ` set (cargar_excel_existente archivo) \<union> url ` set (candidatos web hoy)"
  by (simp add: df_final_ejecutar_scraping set_sort_values_fecha drop_duplicates_def
        duplicados_fuera_urls image_Un)

text \<open>
  C6. A second run on a file whose url column is the one the first run wrote, with the
  sources answering as before (on the same day or another one): the url of every
  candidate is among the urls loaded, no record is new, and the table written has the rows
  that were loaded, as many and with the same urls as the table of the first run.
\<close>

theorem segunda_corrida_sin_nuevas:
  assumes "map url (cargar_excel_existente archivo2)
             = map url (df_final (ejecutar_scraping archivo web hoy))"
  shows "url ` set (candidatos web hoy2) \<subseteq> url ` set (cargar_excel_existente archivo2)
   \<and> nuevas_agregadas (ejecutar_scraping archivo2 web hoy2) = 0
   \<and> set (df_final (ejecutar_scraping archivo2 web hoy2))
       = set (cargar_excel_existente archivo2)
   \<and> url ` set (df_final (ejecutar_scraping archivo2 web hoy2))
       = url ` set (df_final (ejecutar_scraping archivo web hoy))
   \<and> total_noticias (ejecutar_scraping archivo2 web hoy2)
       = total_noticias (ejecutar_scraping archivo web hoy)"
proof -
  let ?r1 = "ejecutar_scraping archivo web hoy"
  let ?F = "df_final ?r1"
  let ?L = "cargar_excel_existente archivo2"
  let ?r2 = "ejecutar_scraping archivo2 web hoy2"
  let ?c2 = "candidatos web hoy2"
  from assms have "set (map url ?L) = set (map url ?F)" by (rule arg_cong)
  then have urls: "url ` set ?L = url ` set ?F" by simp
  have "set (map url ?c2) = set (map url (candidatos web hoy))"
    by (simp only: url_candidatos [of web hoy2 hoy])
  then have "url ` set ?c2 = url ` set (candidatos web hoy)" by simp
  then have conocidas: "url ` set ?c2 \<subseteq> url ` set ?L"
    by (simp add: urls urls_df_final)
  then have nada: "duplicados_fuera (url ` set ?L) ?c2 = []"
    by (rule duplicados_fuera_nada)
  have n0: "nuevas_agregadas ?r2 = 0"
    by (simp only: nuevas_ejecutar_scraping nada list.size)
  have "distinct (map url ?F)"
    by (simp add: df_final_ejecutar_scraping distinct_sort_values_fecha drop_duplicates_def
          duplicados_fuera_distinct)
  with assms have dL: "distinct (map url ?L)" by simp
  have "drop_duplicates (?L @ ?c2) = drop_duplicates ?L"
    using nada by (simp add: drop_duplicates_def duplicados_fuera_append)
  also have "\<dots> = ?L" using dL by (rule drop_duplicates_distinct)
  finally have F2: "df_final ?r2 = sort_values_fecha ?L"
    by (simp only: df_final_ejecutar_scraping [of archivo2])
  have s: "set (df_final ?r2) = set ?L"
    by (simp only: F2 set_sort_values_fecha)
  from s urls have u: "url ` set (df_final ?r2) = url ` set ?F" by simp
  from assms have "length (map url ?L) = length (map url ?F)" by (rule arg_cong)
  then have "length ?L = length ?F" by simp
  then have t: "total_noticias ?r2 = total_noticias ?r1"
    by (simp only: total_ejecutar_scraping F2 length_sort_values_fecha)
  from conocidas n0 s u t show ?thesis by blast
qed

theorem segunda_corrida_sin_nuevas_witness:
  "map url (cargar_excel_existente (Legible (Con_ciudad
      [\<lparr>fecha = Texto ''2024-05-02'', titulo = Texto ''Jovenes en el parque'',
        fuente = Texto ''Blu Radio'', ciudad = Texto ''Sin identificar'',
        url = Texto ''https://www.bluradio.com/nota/1'', resumen = NaN\<rparr>])))
     = map url (df_final (ejecutar_scraping No_existe
         ((\<lambda>s. Sin_respuesta)
            (Blu_Radio := Documento
               [Articulo ''https://www.bluradio.com/nota/1'' ''Jovenes en el parque'' []]))
         ''2024-05-02''))
   \<and> nuevas_agregadas (ejecutar_scraping (Legible (Con_ciudad
      [\<lparr>fecha = Texto ''2024-05-02'', titulo = Texto ''Jovenes en el parque'',
        fuente = Texto ''Blu Radio'', ciudad = Texto ''Sin identificar'',
        url = Texto ''https://www.bluradio.com/nota/1'', resumen = NaN\<rparr>]))
         ((\<lambda>s. Sin_respuesta)
            (Blu_Radio := Documento
               [Articulo ''https://www.bluradio.com/nota/1'' ''Jovenes en el parque'' []]))
         ''2024-05-03'') = 0
   \<and> set (df_final (ejecutar_scraping (Legible (Con_ciudad
      [\<lparr>fecha = Texto ''2024-05-02'', titulo = Texto ''Jovenes en el parque'',
        fuente = Texto ''Blu Radio'', ciudad = Texto ''Sin identificar'',
        url = Texto ''https://www.bluradio.com/nota/1'', resumen = NaN\<rparr>]))
         ((\<lambda>s. Sin_respuesta)
            (Blu_Radio := Documento
               [Articulo ''https://www.bluradio.com/nota/1'' ''Jovenes en el parque'' []]))
         ''2024-05-03''))
     = set (cargar_excel_existente (Legible (Con_ciudad
      [\<lparr>fecha = Texto ''2024-05-02'', titulo = Texto ''Jovenes en el parque'',
        fuente = Texto ''Blu Radio'', ciudad = Texto ''Sin identificar'',
        url = Texto ''https://www.bluradio.com/nota/1'', resumen = NaN\<rparr>])))"
proof -
  let ?web = "(\<lambda>s. Sin_respuesta)
            (Blu_Radio := Documento
               [Articulo ''https://www.bluradio.com/nota/1'' ''Jovenes en el parque'' []])"
  let ?a2 = "Legible (Con_ciudad
      [\<lparr>fecha = Texto ''2024-05-02'', titulo = Texto ''Jovenes en el parque'',
        fuente = Texto ''Blu Radio'', ciudad = Texto ''Sin identificar'',
        url = Texto ''https://www.bluradio.com/nota/1'', resumen = NaN\<rparr>])"
  have h: "map url (cargar_excel_existente ?a2)
             = map url (df_final (ejecutar_scraping No_existe ?web ''2024-05-02''))"
    by code_simp
  from h segunda_corrida_sin_nuevas [OF h, of "''2024-05-03''"] show ?thesis by blast
qed

text \<open>
  C6, as it was stated, fails. A first run with no file finds two records, one with no
  paragraph and one whose title starts with an equals sign. The file it writes is read
  back with a missing value in the place of the empty summary and of that title: the
  second run adds nothing, and the first record of the first run is not in its table.
\<close>

theorem segunda_corrida_tabla_counterexample:
  "df_final (ejecutar_scraping No_existe
      ((\<lambda>s. Sin_respuesta)
         (Blu_Radio := Documento
            [Articulo ''https://www.bluradio.com/nota/1'' ''Jovenes en el parque'' [],
             Articulo ''https://www.bluradio.com/nota/2'' ''=Juventud'' ''Nota'']))
      ''2024-05-02'')
     = [\<lparr>fecha = Texto ''2024-05-02'', titulo = Texto ''Jovenes en el parque'',
         fuente = Texto ''Blu Radio'', ciudad = Texto ''Sin identificar'',
         url = Texto ''https://www.bluradio.com/nota/1'', resumen = Texto []\<rparr>,
        \<lparr>fecha = Texto ''2024-05-02'', titulo = Texto ''=Juventud'',
         fuente = Texto ''Blu Radio'', ciudad = Texto ''Sin identificar'',
         url = Texto ''https://www.bluradio.com/nota/2'', resumen = Texto ''Nota''\<rparr>]
   \<and> tabla_releida
       [\<lparr>fecha = Texto ''2024-05-02'', titulo = Texto ''Jovenes en el parque'',
         fuente = Texto ''Blu Radio'', ciudad = Texto ''Sin identificar'',
         url = Texto ''https://www.bluradio.com/nota/1'', resumen = Texto []\<rparr>,
        \<lparr>fecha = Texto ''2024-05-02'', titulo = Texto ''=Juventud'',
         fuente = Texto ''Blu Radio'', ciudad = Texto ''Sin identificar'',
         url = Texto ''https://www.bluradio.com/nota/2'', resumen = Texto ''Nota''\<rparr>]
       [\<lparr>fecha = Texto ''2024-05-02'', titulo = Texto ''Jovenes en el parque'',
         fuente = Texto ''Blu Radio'', ciudad = Texto ''Sin identificar'',
         url = Texto ''https://www.bluradio.com/nota/1'', resumen = NaN\<rparr>,
        \<lparr>fecha = Texto ''2024-05-02'', titulo = NaN,
         fuente = Texto ''Blu Radio'', ciudad = Texto ''Sin identificar'',
         url = Texto ''https://www.bluradio.com/nota/2'', resumen = Texto ''Nota''\<rparr>]
   \<and> nuevas_agregadas (ejecutar_scraping (Legible (Con_ciudad
       [\<lparr>fecha = Texto ''2024-05-02'', titulo = Texto ''Jovenes en el parque'',
         fuente = Texto ''Blu Radio'', ciudad = Texto ''Sin identificar'',
         url = Texto ''https://www.bluradio.com/nota/1'', resumen = NaN\<rparr>,
        \<lparr>fecha = Texto ''2024-05-02'', titulo = NaN,
         fuente = Texto ''Blu Radio'', ciudad = Texto ''Sin identificar'',
         url = Texto ''https://www.bluradio.com/nota/2'', resumen = Texto ''Nota''\<rparr>]))
      ((\<lambda>s. Sin_respuesta)
         (Blu_Radio := Documento
            [Articulo ''https://www.bluradio.com/nota/1'' ''Jovenes en el parque'' [],
             Articulo ''https://www.bluradio.com/nota/2'' ''=Juventud'' ''Nota'']))
      ''2024-05-02'') = 0
   \<and> df_final (ejecutar_scraping (Legible (Con_ciudad
       [\<lparr>fecha = Texto ''2024-05-02'', titulo = Texto ''Jovenes en el parque'',
         fuente = Texto ''Blu Radio'', ciudad = Texto ''Sin identificar'',
         url = Texto ''https://www.bluradio.com/nota/1'', resumen = NaN\<rparr>,
        \<lparr>fecha = Texto ''2024-05-02'', titulo = NaN,
         fuente = Texto ''Blu Radio'', ciudad = Texto ''Sin identificar'',
         url = Texto ''https://www.bluradio.com/nota/2'', resumen = Texto ''Nota''\<rparr>]))
      ((\<lambda>s. Sin_respuesta)
         (Blu_Radio := Documento
            [Articulo ''https://www.bluradio.com/nota/1'' ''Jovenes en el parque'' [],
             Articulo ''https://www.bluradio.com/nota/2'' ''=Juventud'' ''Nota'']))
      ''2024-05-02'')
     = [\<lparr>fecha = Texto ''2024-05-02'', titulo = Texto ''Jovenes en el parque'',
         fuente = Texto ''Blu Radio'', ciudad = Texto ''Sin identificar'',
         url = Texto ''https://www.bluradio.com/nota/1'', resumen = NaN\<rparr>,
        \<lparr>fecha = Texto ''2024-05-02'', titulo = NaN,
         fuente = Texto ''Blu Radio'', ciudad = Texto ''Sin identificar'',
         url = Texto ''https://www.bluradio.com/nota/2'', resumen = Texto ''Nota''\<rparr>]
   \<and> \<lparr>fecha = Texto ''2024-05-02'', titulo = Texto ''Jovenes en el parque'',
         fuente = Texto ''Blu Radio'', ciudad = Texto ''Sin identificar'',
         url = Texto ''https://www.bluradio.com/nota/1'', resumen = Texto []\<rparr>
       \<notin> set [\<lparr>fecha = Texto ''2024-05-02'', titulo = Texto ''Jovenes en el parque'',
                fuente = Texto ''Blu Radio'', ciudad = Texto ''Sin identificar'',
                url = Texto ''https://www.bluradio.com/nota/1'', resumen = NaN\<rparr>,
               \<lparr>fecha = Texto ''2024-05-02'', titulo = NaN,
                fuente = Texto ''Blu Radio'', ciudad = Texto ''Sin identificar'',
                url = Texto ''https://www.bluradio.com/nota/2'', resumen = Texto ''Nota''\<rparr>]"
  by code_simp

text \<open>
  C8. When no request gets a response, the run ends with its table, file and counts, no
  record is new, and the table written is the loaded one without the rows whose url a
  row before them has, in order of date. Its rows are the loaded rows when the loaded
  rows have distinct urls.
\<close>

theorem todas_las_fuentes_fallan:
  "nuevas_agregadas (ejecutar_scraping archivo (\<lambda>s. Sin_respuesta) hoy) = 0
   \<and> df_final (ejecutar_scraping archivo (\<lambda>s. Sin_respuesta) hoy)
       = sort_values_fecha (drop_duplicates (cargar_excel_existente archivo))
   \<and> guardado (ejecutar_scraping archivo (\<lambda>s. Sin_respuesta) hoy)
       = guardar_excel (df_final (ejecutar_scraping archivo (\<lambda>s. Sin_respuesta) hoy))
   \<and> total_noticias (ejecutar_scraping archivo (\<lambda>s. Sin_respuesta) hoy)
       = length (df_final (ejecutar_scraping archivo (\<lambda>s. Sin_respuesta) hoy))
   \<and> set (df_final (ejecutar_scraping archivo (\<lambda>s. Sin_respuesta) hoy))
       \<subseteq> set (cargar_excel_existente archivo)
   \<and> (distinct (map url (cargar_excel_existente archivo)) \<longrightarrow>
        set (df_final (ejecutar_scraping archivo (\<lambda>s. Sin_respuesta) hoy))
          = set (cargar_excel_existente archivo)
        \<and> length (df_final (ejecutar_scraping archivo (\<lambda>s. Sin_respuesta) hoy))
          = length (cargar_excel_existente archivo))"
proof -
  let ?r = "ejecutar_scraping archivo (\<lambda>s. Sin_respuesta) hoy"
  let ?df = "cargar_excel_existente archivo"
  have n: "nuevas_agregadas ?r = 0"
    by (simp add: nuevas_ejecutar_scraping candidatos_sin_respuesta)
  have f: "df_final ?r = sort_values_fecha (drop_duplicates ?df)"
    by (simp add: df_final_ejecutar_scraping candidatos_sin_respuesta)
  have g: "guardado ?r = guardar_excel (df_final ?r)"
    by (simp add: ejecutar_scraping_def Let_def)
  have t: "total_noticias ?r = length (df_final ?r)"
    by (rule total_ejecutar_scraping)
  have sub: "set (df_final ?r) \<subseteq> set ?df"
    by (simp add: f set_sort_values_fecha drop_duplicates_def duplicados_fuera_subconjunto)
  have eq: "set (df_final ?r) = set ?df \<and> length (df_final ?r) = length ?df"
    if "distinct (map url ?df)"
    using that
    by (simp add: f set_sort_values_fecha length_sort_values_fecha drop_duplicates_distinct)
  from n f g t sub eq show ?thesis by blast
qed

theorem todas_las_fuentes_fallan_witness:
  "distinct (map url (cargar_excel_existente (Legible (Con_ciudad
      [\<lparr>fecha = Texto ''2024-05-01'', titulo = Texto ''Jovenes en el parque'', fuente = Texto ''Pulzo'',
        ciudad = Texto ''Cali'', url = Texto ''https://x/1'', resumen = NaN\<rparr>,
       \<lparr>fecha = Texto ''2024-04-30'', titulo = Texto ''Colegios abren'', fuente = Texto ''Infobae'',
        ciudad = Texto ''Sin identificar'', url = Texto ''https://x/2'', resumen = NaN\<rparr>]))))
   \<and> set (df_final (ejecutar_scraping (Legible (Con_ciudad
      [\<lparr>fecha = Texto ''2024-05-01'', titulo = Texto ''Jovenes en el parque'', fuente = Texto ''Pulzo'',
        ciudad = Texto ''Cali'', url = Texto ''https://x/1'', resumen = NaN\<rparr>,
       \<lparr>fecha = Texto ''2024-04-30'', titulo = Texto ''Colegios abren'', fuente = Texto ''Infobae'',
        ciudad = Texto ''Sin identificar'', url = Texto ''https://x/2'', resumen = NaN\<rparr>]))
        (\<lambda>s. Sin_respuesta) ''2024-05-02''))
     = set (cargar_excel_existente (Legible (Con_ciudad
      [\<lparr>fecha = Texto ''2024-05-01'', titulo = Texto ''Jovenes en el parque'', fuente = Texto ''Pulzo'',
        ciudad = Texto ''Cali'', url = Texto ''https://x/1'', resumen = NaN\<rparr>,
       \<lparr>fecha = Texto ''2024-04-30'', titulo = Texto ''Colegios abren'', fuente = Texto ''Infobae'',
        ciudad = Texto ''Sin identificar'', url = Texto ''https://x/2'', resumen = NaN\<rparr>])))"
proof -
  let ?a = "Legible (Con_ciudad
      [\<lparr>fecha = Texto ''2024-05-01'', titulo = Texto ''Jovenes en el parque'', fuente = Texto ''Pulzo'',
        ciudad = Texto ''Cali'', url = Texto ''https://x/1'', resumen = NaN\<rparr>,
       \<lparr>fecha = Texto ''2024-04-30'', titulo = Texto ''Colegios abren'', fuente = Texto ''Infobae'',
        ciudad = Texto ''Sin identificar'', url = Texto ''https://x/2'', resumen = NaN\<rparr>])"
  have d: "distinct (map url (cargar_excel_existente ?a))"
    by (simp add: cargar_excel_existente_def)
  from d todas_las_fuentes_fallan [of ?a "''2024-05-02''"] show ?thesis by blast
qed

text \<open>
  C8, as it was stated, fails on a file with two rows of one url: the second row is not
  written back.
\<close>

theorem todas_las_fuentes_fallan_counterexample:
  "cargar_excel_existente (Legible (Con_ciudad
      [\<lparr>fecha = Texto ''2024-05-01'', titulo = Texto ''Jovenes en el parque'', fuente = Texto ''Pulzo'',
        ciudad = Texto ''Cali'', url = Texto ''https://x/1'', resumen = NaN\<rparr>,
       \<lparr>fecha = Texto ''2024-04-30'', titulo = Texto ''Colegios abren'', fuente = Texto ''Infobae'',
        ciudad = Texto ''Sin identificar'', url = Texto ''https://x/1'', resumen = NaN\<rparr>]))
     = [\<lparr>fecha = Texto ''2024-05-01'', titulo = Texto ''Jovenes en el parque'', fuente = Texto ''Pulzo'',
        ciudad = Texto ''Cali'', url = Texto ''https://x/1'', resumen = NaN\<rparr>,
       \<lparr>fecha = Texto ''2024-04-30'', titulo = Texto ''Colegios abren'', fuente = Texto ''Infobae'',
        ciudad = Texto ''Sin identificar'', url = Texto ''https://x/1'', resumen = NaN\<rparr>]
   \<and> df_final (ejecutar_scraping (Legible (Con_ciudad
      [\<lparr>fecha = Texto ''2024-05-01'', titulo = Texto ''Jovenes en el parque'', fuente = Texto ''Pulzo'',
        ciudad = Texto ''Cali'', url = Texto ''https://x/1'', resumen = NaN\<rparr>,
       \<lparr>fecha = Texto ''2024-04-30'', titulo = Texto ''Colegios abren'', fuente = Texto ''Infobae'',
        ciudad = Texto ''Sin identificar'', url = Texto ''https://x/1'', resumen = NaN\<rparr>]))
        (\<lambda>s. Sin_respuesta) ''2024-05-02'')
     = [\<lparr>fecha = Texto ''2024-05-01'', titulo = Texto ''Jovenes en el parque'', fuente = Texto ''Pulzo'',
        ciudad = Texto ''Cali'', url = Texto ''https://x/1'', resumen = NaN\<rparr>]
   \<and> set (df_final (ejecutar_scraping (Legible (Con_ciudad
      [\<lparr>fecha = Texto ''2024-05-01'', titulo = Texto ''Jovenes en el parque'', fuente = Texto ''Pulzo'',
        ciudad = Texto ''Cali'', url = Texto ''https://x/1'', resumen = NaN\<rparr>,
       \<lparr>fecha = Texto ''2024-04-30'', titulo = Texto ''Colegios abren'', fuente = Texto ''Infobae'',
        ciudad = Texto ''Sin identificar'', url = Texto ''https://x/1'', resumen = NaN\<rparr>]))
        (\<lambda>s. Sin_respuesta) ''2024-05-02''))
     \<noteq> set (cargar_excel_existente (Legible (Con_ciudad
      [\<lparr>fecha = Texto ''2024-05-01'', titulo = Texto ''Jovenes en el parque'', fuente = Texto ''Pulzo'',
        ciudad = Texto ''Cali'', url = Texto ''https://x/1'', resumen = NaN\<rparr>,
       \<lparr>fecha = Texto ''2024-04-30'', titulo = Texto ''Colegios abren'', fuente = Texto ''Infobae'',
        ciudad = Texto ''Sin identificar'', url = Texto ''https://x/1'', resumen = NaN\<rparr>])))"
  by (simp add: df_final_ejecutar_scraping candidatos_sin_respuesta cargar_excel_existente_def
        drop_duplicates_def sort_values_fecha_def)

end
